theory Spec2Isabelle
  imports Main
begin

section \<open>The private blockchain of \<open>src/blockchain.js\<close>\<close>

text \<open>
  The class \<open>Blockchain\<close> keeps an array \<open>chain\<close> of blocks and a counter \<open>height\<close>.
  Every method returns a promise. The embedding passes the object's state explicitly and
  gives each method the value its promise settles with: \<open>Inr v\<close> for \<open>resolve(v)\<close>,
  \<open>Inl e\<close> for \<open>reject(e)\<close>. Where an \<open>async\<close> function is suspended at an
  \<open>await\<close>, the part before and the part after are separate definitions, and the jobs
  that resume the suspended parts are run from a queue in the order they were put there.
\<close>

subsection \<open>Values\<close>

text \<open>What the code throws: a string (\<open>throw ("...")\<close>) or a runtime \<open>TypeError\<close>.\<close>

datatype error = Thrown string | TypeError string

text \<open>The numbers that arise here: an integer, or \<open>NaN\<close> from a failed \<open>parseInt\<close>.\<close>

datatype number = NaN | Number int

fun minus_number :: "number \<Rightarrow> number \<Rightarrow> number" where
  "minus_number (Number a) (Number b) = Number (a - b)"
| "minus_number _ _ = NaN"

text \<open>The star a user submits, and the two kinds of data a block is made from.\<close>

record star =
  dec :: string
  ra :: string
  story :: string

datatype body_data =
    Data string                 \<comment> \<open>\<open>{ data: ... }\<close>\<close>
  | Owner_Star string star      \<comment> \<open>\<open>{ "owner": address, "star": star }\<close>\<close>

fun owner :: "body_data \<Rightarrow> string option" where
  "owner (Owner_Star address s) = Some address"
| "owner (Data d) = None"

text \<open>
  A block. The stored form of the body is whatever \<open>block.js\<close> makes of the data; it is
  the type parameter \<open>'s\<close>.
\<close>

record 's block =
  hash :: "string option"
  height :: int
  body :: 's
  time :: "string option"
  previousBlockHash :: "string option"

record 's blockchain =
  chain :: "'s block list"
  height :: int

text \<open>
  The libraries the class calls are parameters: \<open>bitcoinMessage.verify\<close> (which returns a
  boolean or throws), \<open>SHA256(...).toString()\<close>, \<open>JSON.stringify\<close> on a block, and the
  coding of a block's body.
\<close>

record 's collaborators =
  verify :: "string \<Rightarrow> string \<Rightarrow> string \<Rightarrow> error + bool"
  SHA256 :: "string \<Rightarrow> string"
  stringify :: "'s block \<Rightarrow> string"
  encode :: "body_data \<Rightarrow> 's"
  decode :: "'s \<Rightarrow> body_data option"

subsection \<open>Strings and the clock\<close>

definition digit :: "nat \<Rightarrow> char" where
  "digit d = ''0123456789'' ! d"

text \<open>\<open>Number.prototype.toString\<close> on an integer: its decimal digits, after the sign.\<close>

function toString :: "int \<Rightarrow> string" where
  "toString n =
     (if n < 0 then CHR ''-'' # toString (- n)
      else if n < 10 then [digit (nat n)]
      else toString (n div 10) @ [digit (nat (n mod 10))])"
  by pat_completeness auto
termination
proof (relation "measure (\<lambda>n. if n < 0 then nat (- n) + 1 else nat n)")
  show "wf (measure (\<lambda>n::int. if n < 0 then nat (- n) + 1 else nat n))"
    by simp
next
  fix n :: int
  assume "n < 0"
  then show "(- n, n) \<in> measure (\<lambda>n. if n < 0 then nat (- n) + 1 else nat n)"
    by simp
next
  fix n :: int
  assume "\<not> n < 0" and "\<not> n < 10"
  then have "0 \<le> n div 10" and "n div 10 < n"
    by simp_all
  then show "(n div 10, n) \<in> measure (\<lambda>n. if n < 0 then nat (- n) + 1 else nat n)"
    by simp
qed

declare toString.simps [simp del]

text \<open>\<open>s.slice(0, -3)\<close>: all but the last three characters, empty for a shorter string.\<close>

definition slice_0_minus3 :: "string \<Rightarrow> string" where
  "slice_0_minus3 s = take (length s - 3) s"

text \<open>
  \<open>new Date().getTime().toString().slice(0, -3)\<close>, the clock reading \<open>now\<close> being
  the milliseconds since the epoch.
\<close>

definition epoch_seconds :: "int \<Rightarrow> string" where
  "epoch_seconds now = slice_0_minus3 (toString now)"

text \<open>\<open>s.split(sep)\<close> for a one-character separator, and \<open>xs[i]\<close> (\<open>None\<close> is \<open>undefined\<close>).\<close>

fun split :: "char \<Rightarrow> string \<Rightarrow> string list" where
  "split sep [] = [[]]"
| "split sep (c # cs) =
     (if c = sep then [] # split sep cs
      else (case split sep cs of
              [] \<Rightarrow> [[c]]
            | x # xs \<Rightarrow> (c # x) # xs))"

definition at_index :: "'a list \<Rightarrow> nat \<Rightarrow> 'a option" where
  "at_index xs i = (if i < length xs then Some (xs ! i) else None)"

text \<open>
  \<open>parseInt(x)\<close> with no radix: leading white space is skipped, a sign is read, a prefix
  \<open>0x\<close> selects radix 16, and the longest prefix of digits is the value; no digit gives
  \<open>NaN\<close>, and so does \<open>undefined\<close>. (JavaScript rounds to a double; the integers here
  are exact, which agrees below \<open>2^53\<close>.)
\<close>

definition digit_of :: "nat \<Rightarrow> char \<Rightarrow> nat option" where
  "digit_of radix c =
     (let k = (of_char c :: nat);
          v = (if 48 \<le> k \<and> k \<le> 57 then k - 48
               else if 97 \<le> k \<and> k \<le> 122 then k - 87
               else if 65 \<le> k \<and> k \<le> 90 then k - 55
               else radix)
      in if v < radix then Some v else None)"

fun digits_prefix :: "nat \<Rightarrow> string \<Rightarrow> nat list" where
  "digits_prefix radix [] = []"
| "digits_prefix radix (c # cs) =
     (case digit_of radix c of
        None \<Rightarrow> []
      | Some v \<Rightarrow> v # digits_prefix radix cs)"

definition is_white_space :: "char \<Rightarrow> bool" where
  "is_white_space c = (c \<in> set [CHR '' '', CHR 0x09, CHR 0x0A, CHR 0x0B, CHR 0x0C, CHR 0x0D])"

definition parseInt :: "string option \<Rightarrow> number" where
  "parseInt x =
     (case x of
        None \<Rightarrow> NaN
      | Some s \<Rightarrow>
          (let s1 = dropWhile is_white_space s;
               negative = (s1 \<noteq> [] \<and> hd s1 = CHR ''-'');
               s2 = (if s1 \<noteq> [] \<and> (hd s1 = CHR ''-'' \<or> hd s1 = CHR ''+'') then tl s1 else s1);
               hex = (take 2 s2 = ''0x'' \<or> take 2 s2 = ''0X'');
               radix = (if hex then 16 else 10);
               s3 = (if hex then drop 2 s2 else s2);
               ds = digits_prefix radix s3;
               v = foldl (\<lambda>acc d. acc * int radix + int d) 0 ds
           in if ds = [] then NaN else Number (if negative then - v else v)))"

subsection \<open>The block class\<close>

text \<open>
  Modelled from the spec: \<open>block.js\<close> (the class \<open>Block\<close> with its constructor,
  \<open>validate\<close> and \<open>getBData\<close>) is not among the sources. By the spec a new block holds
  the encoded body, and its previous hash is null until an append links it; \<open>validate\<close>
  recomputes the digest from the block's fields, the hash field left out, compares it
  with the stored hash and gives a boolean, never raising on a mismatch; decoding gives
  back the data the body was made from.
\<close>

definition Block :: "'s collaborators \<Rightarrow> body_data \<Rightarrow> 's block" where
  "Block env data =
     \<lparr>hash = None, block.height = 0, body = encode env data, time = None,
      previousBlockHash = None\<rparr>"

definition validate :: "'s collaborators \<Rightarrow> 's block \<Rightarrow> error + bool" where
  "validate env b = Inr (hash b = Some (SHA256 env (stringify env (b\<lparr>hash := None\<rparr>))))"


subsection \<open>The chain\<close>

text \<open>
  \<open>_addBlock(block)\<close>. The executor is an \<open>async\<close> function. It reads the counter and
  assigns the height (lines 90-91). When \<open>self.height > 0\<close> it reads the hash of the last
  block (\<open>self.chain.at(-1).hash\<close> throws a \<open>TypeError\<close> on an empty array) and awaits
  it (line 94): there the call is suspended, and whatever else is ready runs before it
  is resumed. Otherwise it goes on without a suspension. The rest (lines 94-105) stores
  the awaited hash as the previous hash, reads the clock, sets the time and the hash,
  pushes the block and sets the counter to the height that was read at the start.

  The block is the object its caller has just made with \<open>new Block\<close> (lines 55 and 157,
  the only two calls), so no other reference to it exists and it is passed by value.
\<close>

record 's suspended =
  updated_height :: int
  block_so_far :: "'s block"
  awaited :: "string option"

datatype 's started =
    Done "'s blockchain \<times> 's block"
  | Waiting "'s suspended"

definition addBlock_finish ::
  "'s collaborators \<Rightarrow> int \<Rightarrow> 's blockchain \<Rightarrow> int \<Rightarrow> 's block \<Rightarrow> 's blockchain \<times> 's block" where
  "addBlock_finish env now self updated block2 =
     (let block3 = block2\<lparr>time := Some (epoch_seconds now)\<rparr>;
          block4 = block3\<lparr>hash := Some (SHA256 env (stringify env block3))\<rparr>
      in (self\<lparr>chain := chain self @ [block4], blockchain.height := updated\<rparr>, block4))"

definition addBlock_start ::
  "'s collaborators \<Rightarrow> int \<Rightarrow> 's blockchain \<Rightarrow> 's block \<Rightarrow> error + 's started" where
  "addBlock_start env now self block0 =
     (let updated = blockchain.height self + 1;
          block1 = block0\<lparr>block.height := updated\<rparr>
      in if blockchain.height self > 0
         then (if chain self = []
               then Inl (TypeError ''Cannot read properties of undefined'')
               else Inr (Waiting \<lparr>updated_height = updated, block_so_far = block1,
                                  awaited = hash (last (chain self))\<rparr>))
         else Inr (Done (addBlock_finish env now self updated block1)))"

definition addBlock_resume ::
  "'s collaborators \<Rightarrow> int \<Rightarrow> 's blockchain \<Rightarrow> 's suspended \<Rightarrow> 's blockchain \<times> 's block" where
  "addBlock_resume env now self s =
     addBlock_finish env now self (updated_height s)
       ((block_so_far s)\<lparr>previousBlockHash := awaited s\<rparr>)"

text \<open>
  A call of \<open>_addBlock\<close> that nothing else runs into: it is resumed, if it was suspended,
  on the state it was started on. This is every call that is awaited before the next
  one is made, and every call inside the constructor, where the counter is at most 0.
\<close>

definition addBlock ::
  "'s collaborators \<Rightarrow> int \<Rightarrow> 's blockchain \<Rightarrow> 's block
     \<Rightarrow> error + ('s blockchain \<times> 's block)" where
  "addBlock env now self block0 =
     (case addBlock_start env now self block0 of
        Inl e \<Rightarrow> Inl e
      | Inr (Done r) \<Rightarrow> Inr r
      | Inr (Waiting s) \<Rightarrow> Inr (addBlock_resume env now self s))"

text \<open>\<open>initializeChain()\<close>; its callers do not look at its outcome.\<close>

definition initializeChain :: "'s collaborators \<Rightarrow> int \<Rightarrow> 's blockchain \<Rightarrow> 's blockchain" where
  "initializeChain env now self =
     (if blockchain.height self = -1
      then (case addBlock env now self (Block env (Data ''Genesis Block'')) of
              Inl e \<Rightarrow> self
            | Inr (self', b) \<Rightarrow> self')
      else self)"

text \<open>\<open>requestMessageOwnershipVerification(address)\<close>: the string is in double quotes.\<close>

definition requestMessageOwnershipVerification :: "string \<Rightarrow> int \<Rightarrow> string" where
  "requestMessageOwnershipVerification address now =
     ''${address}:${new Date().getTime().toString().slice(0, -3)}:starRegistry''"

text \<open>
  \<open>submitStar(address, message, signature, star)\<close>. The three constants are computed as
  in the source; the comparison of \<open>elapsed_time\<close> with five minutes is commented out
  there, so nothing reads it.
\<close>

definition elapsed_time :: "int \<Rightarrow> string \<Rightarrow> number" where
  "elapsed_time now message =
     (let time_message = parseInt (at_index (split CHR '':'' message) 1);
          current_time = parseInt (Some (epoch_seconds now))
      in minus_number current_time time_message)"

definition submitStar ::
  "'s collaborators \<Rightarrow> int \<Rightarrow> 's blockchain \<Rightarrow> string \<Rightarrow> string \<Rightarrow> string \<Rightarrow> star
     \<Rightarrow> 's blockchain \<times> (error + 's block)" where
  "submitStar env now self address message signature st =
     (let elapsed = elapsed_time now message
      in case verify env message address signature of
           Inl e \<Rightarrow> (self, Inl e)
         | Inr ok \<Rightarrow>
             if ok
             then (let self1 = initializeChain env now self;
                       block0 = Block env (Owner_Star address st)
                   in case addBlock env now self1 block0 of
                        Inl e \<Rightarrow> (self1, Inl e)
                      | Inr (self2, b) \<Rightarrow> (self2, Inr b))
             else (self, Inl (Thrown ''Message with address and signature failed the validation'')))"

text \<open>
  \<open>getBlockByHash(hash)\<close>. The first test reads the property \<open>lenght\<close>, which an array
  does not have (\<open>None\<close> is \<open>undefined\<close>); the second compares the array with \<open>null\<close>.
\<close>

definition lenght :: "'a list \<Rightarrow> number option" where
  "lenght xs = None"

definition equals_null :: "'a list \<Rightarrow> bool" where
  "equals_null xs = False"

definition getBlockByHash :: "'s blockchain \<Rightarrow> string \<Rightarrow> error + 's block list" where
  "getBlockByHash self h =
     (let matching_block_array = filter (\<lambda>b. hash b = Some h) (chain self)
      in if lenght matching_block_array = Some (Number 1) then Inr matching_block_array
         else if equals_null matching_block_array
         then Inl (Thrown ''Blockchain does countain a block with this hash value'')
         else Inl (Thrown ''Blockchain countains more than one block with the same hash value''))"

text \<open>\<open>getBlockByHeight(height)\<close>: the first block with that height, or null.\<close>

definition getBlockByHeight :: "'s blockchain \<Rightarrow> int \<Rightarrow> 's block option" where
  "getBlockByHeight self h =
     (case filter (\<lambda>p. block.height p = h) (chain self) of
        [] \<Rightarrow> None
      | b # bs \<Rightarrow> Some b)"




text \<open>
  \<open>validateChain()\<close>. For each block the loop starts \<open>block.validate()\<close> and attaches two
  handlers, which run as later jobs: the one for a resolved promise has an empty body,
  the one for a rejected promise pushes the error. The loop itself pushes an entry when
  \<open>block.height > 0\<close> and the previous hash differs from the hash of the block before.
\<close>

datatype log_entry =
    Caught error
  | Not_Consistent string

fun validateChain_loop :: "'s block list \<Rightarrow> string option \<Rightarrow> log_entry list \<Rightarrow> log_entry list" where
  "validateChain_loop [] previous_block_hash errorLog = errorLog"
| "validateChain_loop (b # bs) previous_block_hash errorLog =
     validateChain_loop bs (hash b)
       (if block.height b > 0 \<and> previous_block_hash \<noteq> previousBlockHash b
        then errorLog @ [Not_Consistent ''Hash value of previous block not consistent with block '']
        else errorLog)"

definition validateChain :: "'s blockchain \<Rightarrow> log_entry list" where
  "validateChain self = validateChain_loop (chain self) None []"

definition validate_handlers :: "log_entry list \<Rightarrow> error + bool \<Rightarrow> log_entry list" where
  "validate_handlers errorLog outcome =
     (case outcome of
        Inr result \<Rightarrow> errorLog
      | Inl e \<Rightarrow> errorLog @ [Caught e])"

definition errorLog_after_jobs :: "'s collaborators \<Rightarrow> 's blockchain \<Rightarrow> log_entry list" where
  "errorLog_after_jobs env self =
     foldl validate_handlers (validateChain self) (map (validate env) (chain self))"

text \<open>The constructor: an empty chain, the genesis block, a validation, and a test submission.\<close>

definition test_address :: string where
  "test_address = ''1PqXTNFDEFmupGYFDzYhJUn4jgTtGPU51A''"

definition test_message :: string where
  "test_message = ''1PqXTNFDEFmupGYFDzYhJUn4jgTtGPU51A:1641555438:starRegistry''"

definition test_signature :: string where
  "test_signature =
     ''H7Ifo3xVYhAIkcWtFGteTcEXDn1mNZIZz804W7eQKCDIX6dF1nOItjDFRqgL7pdLdBpqmioCFXr0ro33KXZY5cc=''"

definition test_star :: star where
  "test_star = \<lparr>dec = ''332'', ra = ''w23'', story = ''my luckystar''\<rparr>"

definition constructor :: "'s collaborators \<Rightarrow> int \<Rightarrow> 's blockchain" where
  "constructor env now =
     (let self0 = \<lparr>chain = [], blockchain.height = -1\<rparr>;
          self1 = initializeChain env now self0;
          errors = validateChain self1
      in fst (submitStar env now self1 test_address test_message test_signature test_star))"

subsection \<open>Sequences of calls\<close>

text \<open>
  Appends one after the other: \<open>_addBlock(new Block(data))\<close> for one piece of data after
  the other, each call finished before the next is made, each with its clock reading,
  stopping at the first rejection.
\<close>

fun append_all ::
  "'s collaborators \<Rightarrow> 's blockchain \<Rightarrow> (int \<times> body_data) list \<Rightarrow> error + 's blockchain" where
  "append_all env self [] = Inr self"
| "append_all env self ((now, data) # rest) =
     (case addBlock env now self (Block env data) of
        Inl e \<Rightarrow> Inl e
      | Inr (self', b') \<Rightarrow> append_all env self' rest)"

text \<open>
  Appends in any order of events. \<open>Call now data\<close> is a call \<open>_addBlock(new Block(data))\<close>
  made by the code that is running: it runs up to its suspension, which is queued, or
  to its end. \<open>Job now\<close> is the next job of the queue being run: the oldest suspended
  call is resumed. A rejected call changes nothing.
\<close>

datatype event = Call int body_data | Job int

record 's event_loop =
  object :: "'s blockchain"
  queue :: "'s suspended list"

fun run_events :: "'s collaborators \<Rightarrow> 's event_loop \<Rightarrow> event list \<Rightarrow> 's event_loop" where
  "run_events env st [] = st"
| "run_events env st (Call now data # es) =
     (case addBlock_start env now (object st) (Block env data) of
        Inl e \<Rightarrow> run_events env st es
      | Inr (Done (self', b)) \<Rightarrow> run_events env (st\<lparr>object := self'\<rparr>) es
      | Inr (Waiting s) \<Rightarrow> run_events env (st\<lparr>queue := queue st @ [s]\<rparr>) es)"
| "run_events env st (Job now # es) =
     (case queue st of
        [] \<Rightarrow> run_events env st es
      | s # rest \<Rightarrow>
          run_events env \<lparr>object = fst (addBlock_resume env now (object st) s), queue = rest\<rparr> es)"

text \<open>
  The state of a \<open>Blockchain\<close> object after a series of \<open>submitStar\<close> calls, each given as
  clock reading, address, message, signature and star.
\<close>

fun submit_all ::
  "'s collaborators \<Rightarrow> 's blockchain \<Rightarrow> (int \<times> string \<times> string \<times> string \<times> star) list
     \<Rightarrow> 's blockchain" where
  "submit_all env self [] = self"
| "submit_all env self ((now, address, message, signature, st) # rest) =
     submit_all env (fst (submitStar env now self address message signature st)) rest"

text \<open>
  The counter is one less than the number of blocks, and the heights count up from 0.
\<close>

definition counted :: "'s blockchain \<Rightarrow> bool" where
  "counted self =
     (blockchain.height self = int (length (chain self)) - 1 \<and>
      map block.height (chain self) = map int [0..<length (chain self)])"

text \<open>
  From the third block on, each block holds the hash of the block before it.
\<close>

definition linked_above_one :: "'s blockchain \<Rightarrow> bool" where
  "linked_above_one self =
     (map previousBlockHash (drop 2 (chain self)) = map hash (drop 1 (butlast (chain self))))"

subsection \<open>Collaborators for the examples\<close>

text \<open>
  A verifier that accepts the message, address and signature written in the constructor
  and nothing else, a digest that only wraps the text it is given, a serialisation that
  lists the fields of a block, and a body stored as the data itself.
\<close>

fun show_data :: "body_data \<Rightarrow> string" where
  "show_data (Data d) = ''{data:'' @ d @ ''}''"
| "show_data (Owner_Star a s) =
     ''{owner:'' @ a @ '',dec:'' @ dec s @ '',ra:'' @ ra s @ '',story:'' @ story s @ ''}''"

definition show_field :: "string option \<Rightarrow> string" where
  "show_field x = (case x of None \<Rightarrow> ''null'' | Some s \<Rightarrow> s)"

definition example_env :: "body_data collaborators" where
  "example_env =
     \<lparr>verify = (\<lambda>message address signature.
         Inr (message = test_message \<and> address = test_address \<and> signature = test_signature)),
      SHA256 = (\<lambda>s. ''sha256('' @ s @ '')''),
      stringify = (\<lambda>b. show_field (hash b) @ '','' @ toString (block.height b) @ '',''
                      @ show_data (body b) @ '','' @ show_field (time b) @ '',''
                      @ show_field (previousBlockHash b)),
      encode = (\<lambda>data. data),
      decode = (\<lambda>stored. Some stored)\<rparr>"

text \<open>
  An initialised chain: the counter and the heights agree with the array, which is not
  empty.
\<close>

definition initialized :: "'s blockchain \<Rightarrow> bool" where
  "initialized self = (counted self \<and> chain self \<noteq> [])"


text \<open>A chain holding the genesis block alone, its body changed after the append.\<close>

definition tampered_chain :: "body_data blockchain" where
  "tampered_chain =
     (let self = initializeChain example_env 1641555438000 \<lparr>chain = [], blockchain.height = -1\<rparr>
      in self\<lparr>chain := map (\<lambda>b. b\<lparr>body := Data ''Tampered''\<rparr>) (chain self)\<rparr>)"

section \<open>Properties\<close>

subsection \<open>Appending\<close>

text \<open>A call that nothing else runs into, written as one piece.\<close>

lemma addBlock_unfold:
  "addBlock env now self block0 =
     (let updated = blockchain.height self + 1;
          block1 = block0\<lparr>block.height := updated\<rparr>
      in case (if blockchain.height self > 0
               then (if chain self = []
                     then Inl (TypeError ''Cannot read properties of undefined'')
                     else Inr (block1\<lparr>previousBlockHash := hash (last (chain self))\<rparr>))
               else Inr block1) of
           Inl e \<Rightarrow> Inl e
         | Inr block2 \<Rightarrow>
             (let block3 = block2\<lparr>time := Some (epoch_seconds now)\<rparr>;
                  block4 = block3\<lparr>hash := Some (SHA256 env (stringify env block3))\<rparr>
              in Inr (self\<lparr>chain := chain self @ [block4], blockchain.height := updated\<rparr>,
                      block4)))"
  by (simp add: addBlock_def addBlock_start_def addBlock_resume_def addBlock_finish_def Let_def)

lemma addBlock_appends:
  assumes "addBlock env now self b = Inr (self', b')"
  shows "chain self' = chain self @ [b']"
    and "blockchain.height self' = blockchain.height self + 1"
    and "block.height b' = blockchain.height self + 1"
  using assms by (auto simp: addBlock_unfold Let_def split: if_splits)

lemma addBlock_counted:
  assumes "counted self" and "addBlock env now self b = Inr (self', b')"
  shows "counted self'"
  using assms(1) addBlock_appends[OF assms(2)] by (simp add: counted_def)

lemma append_all_counted:
  "counted self \<Longrightarrow> append_all env self inputs = Inr self' \<Longrightarrow> counted self'"
proof (induction inputs arbitrary: self)
  case Nil
  then show ?case by simp
next
  case (Cons p inputs)
  obtain now data where p: "p = (now, data)" by (cases p)
  from Cons.prems(2) p obtain s1 b1 where
    step: "addBlock env now self (Block env data) = Inr (s1, b1)" and rest: "append_all env s1 inputs = Inr self'"
    by (auto split: sum.splits)
  from addBlock_counted[OF Cons.prems(1) step] rest show ?case
    by (rule Cons.IH)
qed

lemma counted_nth:
  assumes "counted self" and "i < length (chain self)"
  shows "block.height (chain self ! i) = int i"
proof -
  have "map block.height (chain self) ! i = map int [0..<length (chain self)] ! i"
    using assms(1) by (simp add: counted_def)
  with assms(2) show ?thesis by simp
qed

lemma counted_empty: "counted \<lparr>chain = [], blockchain.height = -1\<rparr>"
  by (simp add: counted_def)

text \<open>
  When the appends are made one after the other, the block stored at index \<open>i\<close> has
  height \<open>i\<close>.
\<close>

lemma sequential_heights:
  assumes "append_all env \<lparr>chain = [], blockchain.height = -1\<rparr> inputs = Inr self"
    and "i < length (chain self)"
  shows "block.height (chain self ! i) = int i"
  using counted_nth[OF append_all_counted[OF counted_empty assms(1)] assms(2)] .

text \<open>A call followed at once by the job that resumes it is a call run in one piece.\<close>

lemma call_then_job:
  "object (run_events env \<lparr>object = self, queue = []\<rparr> [Call now data, Job now]) =
     (case addBlock env now self (Block env data) of
        Inl e \<Rightarrow> self
      | Inr (self', b) \<Rightarrow> self')"
  by (auto simp: addBlock_def split: sum.splits started.splits)

lemmas example_simps =
  constructor_def initializeChain_def addBlock_unfold submitStar_def Block_def example_env_def
  epoch_seconds_def slice_0_minus3_def toString.simps digit_def Let_def show_field_def
  test_message_def test_address_def test_signature_def test_star_def

subsection \<open>The chain of the examples\<close>

lemma example_constructor:
  "constructor example_env 1641555438000 =
     \<lparr>chain =
        [\<lparr>hash = Some ''sha256(null,0,{data:Genesis Block},1641555438,null)'',
          block.height = 0, body = Data ''Genesis Block'', time = Some ''1641555438'',
          previousBlockHash = None\<rparr>,
         \<lparr>hash = Some ''sha256(null,1,{owner:1PqXTNFDEFmupGYFDzYhJUn4jgTtGPU51A,dec:332,ra:w23,story:my luckystar},1641555438,null)'',
          block.height = 1, body = Owner_Star test_address test_star, time = Some ''1641555438'',
          previousBlockHash = None\<rparr>],
      blockchain.height = 1\<rparr>"
  by (simp add: example_simps)

lemma example_accepts: "verify example_env test_message test_address test_signature = Inr True"
  by (simp add: example_env_def)

lemma example_refuses: "verify example_env test_message test_address ''forged'' = Inr False"
  by (simp add: example_env_def test_signature_def)

text \<open>
  Claim C2. The claim asks that every block above the genesis block holds the hash of the
  block before it, and that only the genesis block has a null previous hash. The test
  in \<open>_addBlock\<close> is \<open>self.height > 0\<close>, so the block appended to a chain that holds the
  genesis block alone is not linked: in the chain the constructor builds, the block at
  height 1 has a null previous hash, while the genesis block has a hash.
\<close>

theorem second_block_not_linked:
  "block.height (chain (constructor example_env 1641555438000) ! 1) = 1
   \<and> previousBlockHash (chain (constructor example_env 1641555438000) ! 1) = None
   \<and> hash (chain (constructor example_env 1641555438000) ! 0)
       = Some ''sha256(null,0,{data:Genesis Block},1641555438,null)''"
  by (simp add: example_constructor)

text \<open>
  The link is made from height 2 on: there the height read by \<open>_addBlock\<close> is above 0.
\<close>

lemma addBlock_previous:
  assumes "addBlock env now self b = Inr (self', b')" and "blockchain.height self > 0"
  shows "previousBlockHash b' = hash (last (chain self))"
  using assms by (auto simp: addBlock_unfold Let_def split: if_splits)

lemma addBlock_linked:
  assumes c: "counted self" and l: "linked_above_one self"
    and step: "addBlock env now self b = Inr (self', b')"
  shows "linked_above_one self'"
proof (cases "length (chain self) < 2")
  case True
  then show ?thesis
    using addBlock_appends(1)[OF step] by (simp add: linked_above_one_def)
next
  case False
  then have h: "blockchain.height self > 0"
    using c by (simp add: counted_def)
  have ne: "chain self \<noteq> []" using False by auto
  have prev: "previousBlockHash b' = hash (last (chain self))"
    using step h by (rule addBlock_previous)
  have split_last: "drop 1 (chain self) = drop 1 (butlast (chain self)) @ [last (chain self)]"
  proof -
    have "chain self = butlast (chain self) @ [last (chain self)]"
      using ne by simp
    then have "drop 1 (chain self) = drop 1 (butlast (chain self) @ [last (chain self)])"
      by simp
    also have "\<dots> = drop 1 (butlast (chain self)) @ [last (chain self)]"
      using False by simp
    finally show ?thesis .
  qed
  have "map previousBlockHash (drop 2 (chain self @ [b']))
        = map previousBlockHash (drop 2 (chain self)) @ [previousBlockHash b']"
    using False by simp
  also have "\<dots> = map hash (drop 1 (butlast (chain self))) @ [hash (last (chain self))]"
    using l prev by (simp add: linked_above_one_def)
  also have "\<dots> = map hash (drop 1 (chain self))"
    using split_last by (metis list.simps(8,9) map_append)
  finally show ?thesis
    using addBlock_appends(1)[OF step] by (simp add: linked_above_one_def)
qed

lemma append_all_linked:
  "counted self \<Longrightarrow> linked_above_one self \<Longrightarrow> append_all env self inputs = Inr self'
   \<Longrightarrow> linked_above_one self'"
proof (induction inputs arbitrary: self)
  case Nil
  then show ?case by simp
next
  case (Cons p inputs)
  obtain now data where p: "p = (now, data)" by (cases p)
  from Cons.prems(3) p obtain s1 b1 where
    step: "addBlock env now self (Block env data) = Inr (s1, b1)" and rest: "append_all env s1 inputs = Inr self'"
    by (auto split: sum.splits)
  show ?case
    using addBlock_counted[OF Cons.prems(1) step] addBlock_linked[OF Cons.prems(1,2) step] rest
    by (rule Cons.IH)
qed

lemma linked_from_height_two:
  assumes "append_all env \<lparr>chain = [], blockchain.height = -1\<rparr> inputs = Inr self"
    and "2 \<le> i" and "i < length (chain self)"
  shows "previousBlockHash (chain self ! i) = hash (chain self ! (i - 1))"
proof -
  have "linked_above_one self"
    using append_all_linked[OF counted_empty _ assms(1)] by (simp add: linked_above_one_def)
  then have eq: "map previousBlockHash (drop 2 (chain self)) = map hash (drop 1 (butlast (chain self)))"
    by (simp add: linked_above_one_def)
  have i: "2 + (i - 2) = i" "Suc (i - 2) = i - 1"
    using assms(2) by simp_all
  have "previousBlockHash (chain self ! i) = map previousBlockHash (drop 2 (chain self)) ! (i - 2)"
    using assms(2,3) i(1) by (simp del: One_nat_def add: nth_drop)
  also have "\<dots> = map hash (drop 1 (butlast (chain self))) ! (i - 2)"
    using eq by simp
  also have "\<dots> = hash (butlast (chain self) ! (i - 1))"
    using assms(2,3) i(2) by (simp add: nth_drop)
  also have "\<dots> = hash (chain self ! (i - 1))"
    using assms(2,3) by (simp add: nth_butlast)
  finally show ?thesis .
qed

subsection \<open>Appends that overlap\<close>

text \<open>
  Claim C8. The claim asks that in every chain built by appends the block at index \<open>i\<close>
  has height \<open>i\<close>. \<open>_addBlock\<close> reads the counter, is suspended at its \<open>await\<close> when the
  counter is above 0, and pushes the block and sets the counter only when it is resumed.
  On the chain the constructor builds, two calls made before either is resumed both
  read the counter 1: both blocks get height 2, the chain has four blocks with the
  heights 0, 1, 2, 2, and the counter ends at 2.
\<close>

theorem overlapping_appends_repeat_height:
  "map block.height
     (chain (object (run_events example_env
        \<lparr>object = constructor example_env 1641555438000, queue = []\<rparr>
        [Call 1641555439000 (Owner_Star test_address test_star),
         Call 1641555439000 (Owner_Star test_address test_star),
         Job 1641555439000, Job 1641555439000])))
     = [0, 1, 2, 2]
   \<and> blockchain.height (object (run_events example_env
        \<lparr>object = constructor example_env 1641555438000, queue = []\<rparr>
        [Call 1641555439000 (Owner_Star test_address test_star),
         Call 1641555439000 (Owner_Star test_address test_star),
         Job 1641555439000, Job 1641555439000]))
     = 2"
  by (simp add: example_constructor addBlock_start_def addBlock_resume_def addBlock_finish_def
      Block_def Let_def)

subsection \<open>Submitting a star\<close>

lemma addBlock_resolves:
  "blockchain.height self \<le> 0 \<or> chain self \<noteq> []
   \<Longrightarrow> \<exists>self' b'. addBlock env now self b = Inr (self', b')"
  by (auto simp: addBlock_unfold Let_def)

lemma initializeChain_empty:
  "initializeChain env now \<lparr>chain = [], blockchain.height = -1\<rparr> =
     \<lparr>chain = [(Block env (Data ''Genesis Block''))
                 \<lparr>block.height := 0, time := Some (epoch_seconds now),
                  hash := Some (SHA256 env (stringify env
                    ((Block env (Data ''Genesis Block''))
                       \<lparr>block.height := 0, time := Some (epoch_seconds now)\<rparr>)))\<rparr>],
      blockchain.height = 0\<rparr>"
  by (simp add: initializeChain_def addBlock_unfold Let_def)

lemma initializeChain_initialized:
  "blockchain.height self \<noteq> -1 \<Longrightarrow> initializeChain env now self = self"
  by (simp add: initializeChain_def)

lemma initializeChain_height:
  "blockchain.height self = -1 \<Longrightarrow> blockchain.height (initializeChain env now self) = 0"
  by (simp add: initializeChain_def addBlock_unfold Let_def)

text \<open>A rejected submission leaves the state as it was, whatever the state.\<close>

lemma submitStar_rejected:
  assumes "submitStar env now self address message signature st = (self', Inl e)"
  shows "self' = self"
proof (cases "blockchain.height self = -1")
  case True
  have h0: "blockchain.height (initializeChain env now self) = 0"
    using True by (rule initializeChain_height)
  obtain s2 b2 where
    "addBlock env now (initializeChain env now self) (Block env (Owner_Star address st)) = Inr (s2, b2)"
    using addBlock_resolves[of "initializeChain env now self" env now "Block env (Owner_Star address st)"] h0
    by auto
  with assms show ?thesis
    by (auto simp: submitStar_def Let_def split: sum.splits if_splits)
next
  case False
  then have "initializeChain env now self = self"
    by (rule initializeChain_initialized)
  with assms show ?thesis
    by (auto simp: submitStar_def Let_def split: sum.splits if_splits)
qed

text \<open>On a chain that has its genesis block, a resolved submission appends one block.\<close>

lemma submitStar_resolved:
  assumes "blockchain.height self \<noteq> -1"
    and "submitStar env now self address message signature st = (self', Inr b)"
  shows "chain self' = chain self @ [b]"
    and "blockchain.height self' = blockchain.height self + 1"
    and "block.height b = blockchain.height self + 1"
proof -
  have same: "initializeChain env now self = self"
    using assms(1) by (rule initializeChain_initialized)
  from assms(2) have step: "addBlock env now self (Block env (Owner_Star address st)) = Inr (self', b)"
    by (auto simp: submitStar_def Let_def same split: sum.splits if_splits)
  from addBlock_appends[OF step]
  show "chain self' = chain self @ [b]"
    and "blockchain.height self' = blockchain.height self + 1"
    and "block.height b = blockchain.height self + 1"
    by simp_all
qed

lemma submitStar_bad_signature:
  "verify env message address signature = Inr False \<Longrightarrow>
   submitStar env now self address message signature st =
     (self, Inl (Thrown ''Message with address and signature failed the validation''))"
  by (simp add: submitStar_def Let_def)

lemma initialized_height: "initialized self \<Longrightarrow> blockchain.height self \<noteq> -1"
  by (cases "chain self") (auto simp: initialized_def counted_def)

lemma submitStar_initialized:
  assumes "initialized self"
  shows "initialized (fst (submitStar env now self address message signature st))"
proof (cases "submitStar env now self address message signature st")
  case (Pair self' r)
  show ?thesis
  proof (cases r)
    case (Inl e)
    with Pair submitStar_rejected[of env now self address message signature st self' e] assms
    show ?thesis by simp
  next
    case (Inr b)
    have h: "blockchain.height self \<noteq> -1"
      using assms by (rule initialized_height)
    from Pair Inr have eq: "submitStar env now self address message signature st = (self', Inr b)"
      by simp
    have "chain self' = chain self @ [b]" "blockchain.height self' = blockchain.height self + 1"
      "block.height b = blockchain.height self + 1"
      using submitStar_resolved[OF h eq] by simp_all
    with assms have "initialized self'"
      by (simp add: initialized_def counted_def)
    with Pair show ?thesis by simp
  qed
qed

lemma initializeChain_empty_initialized:
  "initialized (initializeChain env now \<lparr>chain = [], blockchain.height = -1\<rparr>)"
  by (simp add: initializeChain_empty initialized_def counted_def)

lemma constructor_initialized: "initialized (constructor env now)"
  unfolding constructor_def Let_def
  by (rule submitStar_initialized) (rule initializeChain_empty_initialized)

lemma submit_all_initialized:
  "initialized self \<Longrightarrow> initialized (submit_all env self calls)"
proof (induction calls arbitrary: self)
  case Nil
  then show ?case by simp
next
  case (Cons c calls)
  obtain now address message signature st where c: "c = (now, address, message, signature, st)"
    by (cases c)
  have "initialized (fst (submitStar env now self address message signature st))"
    using Cons.prems by (rule submitStar_initialized)
  then have "initialized (submit_all env (fst (submitStar env now self address message signature st)) calls)"
    by (rule Cons.IH)
  with c show ?case by simp
qed

text \<open>
  Claim C9. On a \<open>Blockchain\<close> object, after its construction and any series of earlier
  submissions: a \<open>submitStar\<close> call that is rejected leaves the chain and the height as
  they were, and one that resolves appends exactly one block, the one it resolves with,
  and raises the height by one. When the verifier returns false the call is rejected
  with the message of the failed validation and the state is unchanged.
\<close>

theorem submitStar_effect:
  "(case submitStar env now (submit_all env (constructor env now0) calls) address message signature st of
      (self', Inl e) \<Rightarrow> self' = submit_all env (constructor env now0) calls
    | (self', Inr b) \<Rightarrow>
        chain self' = chain (submit_all env (constructor env now0) calls) @ [b]
        \<and> blockchain.height self' = blockchain.height (submit_all env (constructor env now0) calls) + 1)
   \<and> (verify env message address signature = Inr False \<longrightarrow>
        submitStar env now (submit_all env (constructor env now0) calls) address message signature st
          = (submit_all env (constructor env now0) calls,
             Inl (Thrown ''Message with address and signature failed the validation'')))"
proof -
  define self where "self = submit_all env (constructor env now0) calls"
  have init: "initialized self"
    unfolding self_def by (rule submit_all_initialized) (rule constructor_initialized)
  then have h: "blockchain.height self \<noteq> -1"
    by (rule initialized_height)
  have "case submitStar env now self address message signature st of
      (self', Inl e) \<Rightarrow> self' = self
    | (self', Inr b) \<Rightarrow> chain self' = chain self @ [b]
        \<and> blockchain.height self' = blockchain.height self + 1"
  proof (cases "submitStar env now self address message signature st")
    case (Pair self' r)
    show ?thesis
    proof (cases r)
      case (Inl e)
      with Pair submitStar_rejected[of env now self address message signature st self' e]
      show ?thesis by simp
    next
      case (Inr b)
      with Pair submitStar_resolved[OF h, of env now address message signature st self' b]
      show ?thesis by simp
    qed
  qed
  moreover have "verify env message address signature = Inr False \<longrightarrow>
        submitStar env now self address message signature st
          = (self, Inl (Thrown ''Message with address and signature failed the validation''))"
    by (simp add: submitStar_bad_signature)
  ultimately show ?thesis
    unfolding self_def by simp
qed

theorem submitStar_effect_witness:
  "verify example_env test_message test_address ''forged'' = Inr False
   \<and> submitStar example_env 1641556438000 (submit_all example_env (constructor example_env 1641555438000) [])
        test_address test_message ''forged'' test_star
      = (submit_all example_env (constructor example_env 1641555438000) [],
         Inl (Thrown ''Message with address and signature failed the validation''))"
  using submitStar_effect[where env = example_env and now = 1641556438000 and ?now0.0 = 1641555438000
      and calls = "[]" and address = test_address and message = test_message
      and signature = "''forged''" and st = test_star]
    example_refuses
  by blast

text \<open>
  Claim C1. The claim asks that a submission whose message is older than 300 seconds is
  rejected and appends nothing. The comparison with five minutes is commented out in
  \<open>submitStar\<close>: the message written in the constructor, submitted again 1000 seconds after
  its time stamp with its signature, resolves with a block and makes the chain one block
  longer.
\<close>

lemma example_elapsed: "elapsed_time 1641556438000 test_message = Number 1000"
  by (simp add: elapsed_time_def parseInt_def at_index_def digit_of_def is_white_space_def
      example_simps)

theorem expired_challenge_accepted:
  "elapsed_time 1641556438000 test_message = Number 1000
   \<and> \<not> isl (snd (submitStar example_env 1641556438000 (constructor example_env 1641555438000)
                    test_address test_message test_signature test_star))
   \<and> length (chain (fst (submitStar example_env 1641556438000 (constructor example_env 1641555438000)
                    test_address test_message test_signature test_star)))
       = length (chain (constructor example_env 1641555438000)) + 1"
  by (simp add: example_elapsed example_constructor) (simp add: example_simps)

subsection \<open>The constructor\<close>

text \<open>
  After \<open>initializeChain\<close> on the empty chain, the first step of the constructor, the
  chain has height 0 and one block, with a null previous hash and the encoded genesis
  marker as its body.
\<close>

lemma initializeChain_genesis:
  "blockchain.height (initializeChain env now \<lparr>chain = [], blockchain.height = -1\<rparr>) = 0
   \<and> length (chain (initializeChain env now \<lparr>chain = [], blockchain.height = -1\<rparr>)) = 1
   \<and> previousBlockHash (chain (initializeChain env now \<lparr>chain = [], blockchain.height = -1\<rparr>) ! 0) = None
   \<and> body (chain (initializeChain env now \<lparr>chain = [], blockchain.height = -1\<rparr>) ! 0)
       = encode env (Data ''Genesis Block'')"
  by (simp add: initializeChain_empty Block_def)

text \<open>
  Claim C7. The claim asks that a freshly constructed chain has height 0 and exactly one
  block, the genesis block. The constructor goes on after \<open>initializeChain\<close>: it submits
  the address, message, signature and star written in it. With a verifier that accepts
  that signature the constructed chain has height 1 and two blocks, the second one
  holding the star of the constructor.
\<close>

theorem constructor_appends_test_star:
  "verify example_env test_message test_address test_signature = Inr True
   \<and> blockchain.height (constructor example_env 1641555438000) = 1
   \<and> length (chain (constructor example_env 1641555438000)) = 2
   \<and> body (chain (constructor example_env 1641555438000) ! 0) = Data ''Genesis Block''
   \<and> body (chain (constructor example_env 1641555438000) ! 1) = Owner_Star test_address test_star"
  by (simp add: example_constructor example_accepts)

subsection \<open>The message to sign\<close>

text \<open>
  Claim C10. Whatever the address and the clock reading, the message that
  \<open>requestMessageOwnershipVerification\<close> resolves with is the same string.
\<close>

theorem challenge_message_constant:
  "requestMessageOwnershipVerification a1 t1 = requestMessageOwnershipVerification a2 t2"
  by (simp add: requestMessageOwnershipVerification_def)

text \<open>
  Claim C6. The claim asks for the address, a colon, the seconds of the clock, and
  \<open>:starRegistry\<close>. For the address of the constructor and the clock at 1641555438
  seconds that is the message of the constructor; the method resolves with the text
  between its double quotes instead.
\<close>

theorem challenge_message_not_formatted:
  "test_address @ '':'' @ epoch_seconds 1641555438000 @ '':starRegistry'' = test_message
   \<and> requestMessageOwnershipVerification test_address 1641555438000
       = ''${address}:${new Date().getTime().toString().slice(0, -3)}:starRegistry''
   \<and> requestMessageOwnershipVerification test_address 1641555438000 \<noteq> test_message"
  by (simp add: requestMessageOwnershipVerification_def example_simps)

subsection \<open>Queries\<close>

lemma getBlockByHash_rejects:
  "getBlockByHash self h =
     Inl (Thrown ''Blockchain countains more than one block with the same hash value'')"
  by (simp add: getBlockByHash_def lenght_def equals_null_def)

text \<open>
  Claim C4. The claim asks for the block when exactly one block has the hash, and for a
  not-found failure when none has. Neither of the first two tests of \<open>getBlockByHash\<close>
  can hold, so the third branch is always taken: the hash of the genesis block, which
  one block has, and a hash that no block has are both rejected with the message for
  more than one block.
\<close>

theorem getBlockByHash_single_match_rejected:
  "filter (\<lambda>b. hash b = Some ''sha256(null,0,{data:Genesis Block},1641555438,null)'')
      (chain (constructor example_env 1641555438000))
     = [chain (constructor example_env 1641555438000) ! 0]
   \<and> getBlockByHash (constructor example_env 1641555438000)
        ''sha256(null,0,{data:Genesis Block},1641555438,null)''
     = Inl (Thrown ''Blockchain countains more than one block with the same hash value'')
   \<and> filter (\<lambda>b. hash b = Some ''no such hash'') (chain (constructor example_env 1641555438000)) = []
   \<and> getBlockByHash (constructor example_env 1641555438000) ''no such hash''
     = Inl (Thrown ''Blockchain countains more than one block with the same hash value'')"
  by (simp add: example_constructor getBlockByHash_rejects)









subsection \<open>Validating the chain\<close>

text \<open>
  Claim C3. The claim asks that the list holds an entry for every block whose own
  validation fails. The handler for the outcome of \<open>block.validate()\<close> has an empty
  body, and \<open>resolve(errorLog)\<close> does not wait for it: for the genesis block with a
  changed body, whose validation gives false, the list is empty when the promise
  resolves and stays empty after the handlers have run.
\<close>

theorem tampered_block_not_reported:
  "map (validate example_env) (chain tampered_chain) = [Inr False]
   \<and> validateChain tampered_chain = []
   \<and> errorLog_after_jobs example_env tampered_chain = []"
  by (simp add: tampered_chain_def validate_def validateChain_def errorLog_after_jobs_def
      validate_handlers_def example_simps)

end
